theory Spec2Isabelle
  imports Complex_Main "HOL-Library.Multiset"
begin

section \<open>Documents of the patient\_system database\<close>

text \<open>
  Both variants of the portal (\<^verbatim>\<open>app.py\<close> and \<^verbatim>\<open>app1.py\<close>) keep three collections
  in one database: \<^verbatim>\<open>patients\<close>, \<^verbatim>\<open>conversations\<close> and \<^verbatim>\<open>messages\<close>.
  A collection is the list of its documents in insertion order; \<^verbatim>\<open>insert_one\<close> adds at
  the end. A document is a record of the fields the handlers read or write.
  Identifiers are strings, a \<^verbatim>\<open>datetime\<close> is an integer number of time units since the
  epoch. A field that some writer of the repository leaves out is optional: \<^verbatim>\<open>read\<close>
  (absent in every message written by \<^verbatim>\<open>app.py\<close> and in the seed messages of \<^verbatim>\<open>app1.py\<close>)
  and \<^verbatim>\<open>title\<close> (read with \<^verbatim>\<open>conv.get('title', ...)\<close>). The \<^verbatim>\<open>_id\<close> of a conversation and
  of a message is only ever used through \<^verbatim>\<open>str(...)\<close>, so the field holds that string.

  \<^verbatim>\<open>send_message\<close> stores the \<^verbatim>\<open>conversation_id\<close> and the \<^verbatim>\<open>message\<close> of the request body
  as they come, so these two fields hold any JSON value. A JSON number is its value, a
  rational (Python's \<^verbatim>\<open>0\<close> and \<^verbatim>\<open>0.0\<close> are the same number); an object is the list of its
  members in the order of the text.
\<close>

type_synonym datetime = int
type_synonym objectid = nat

datatype json =
    JNull
  | JBool bool
  | JNum rat
  | JStr string
  | JList "json list"
  | JObj "(string \<times> json) list"

record patient_doc =
  patient_oid :: objectid
  name :: string

record conversation_doc =
  conv_id :: string
  participants :: "string list"
  title :: "string option"
  created_at :: datetime

record message_doc =
  msg_id :: string
  conversation_id :: json
  sender_id :: string
  message :: json
  timestamp :: datetime
  read :: "bool option"

record db =
  patients :: "patient_doc list"
  conversations :: "conversation_doc list"
  messages :: "message_doc list"

text \<open>
  The session holds at most the entry \<^verbatim>\<open>patient_id\<close>; \<open>None\<close> is a session without it.
\<close>

type_synonym session = "string option"

text \<open>
  The failures of the handlers. Two are early returns: HTTP 401 and 400. The others are
  exceptions that no handler catches, which the framework turns into HTTP 500:
  \<^verbatim>\<open>bson.errors.InvalidId\<close>, raised by \<^verbatim>\<open>ObjectId(...)\<close> on a string that is not an object
  id; \<^verbatim>\<open>AttributeError\<close>, raised by \<^verbatim>\<open>data.get\<close> when the request body is not an object; and
  the exception of an \<^verbatim>\<open>insert_one\<close> that the store refuses. \<open>HTTPException\<close> is the error
  response, with its status code, that the framework itself gives when \<^verbatim>\<open>request.json\<close>
  raises.
\<close>

datatype error =
    NotAuthenticated
  | MissingRequiredFields
  | InvalidId
  | AttributeError
  | InsertFailed
  | HTTPException nat

fun status_code :: "error \<Rightarrow> nat" where
  "status_code NotAuthenticated = 401"
| "status_code MissingRequiredFields = 400"
| "status_code InvalidId = 500"
| "status_code AttributeError = 500"
| "status_code InsertFailed = 500"
| "status_code (HTTPException code) = code"

text \<open>The JSON objects of the responses. A key that a variant does not emit is \<open>None\<close>.\<close>

record summary =
  s_id :: string
  s_title :: string
  s_last_message :: json
  s_timestamp :: datetime
  s_unread_count :: "nat option"

record message_view =
  v_id :: string
  v_sender :: string
  v_message :: json
  v_timestamp :: datetime
  v_is_own :: bool

datatype sent = MessageSent

text \<open>
  What \<^verbatim>\<open>request.json\<close> gives in \<^verbatim>\<open>POST /api/messages\<close>: the parsed body, any JSON value
  (Python's \<^verbatim>\<open>None\<close> is \<open>JNull\<close>), or an exception of the framework, with its status code,
  when the body is not JSON.
\<close>

datatype request_json = JsonValue json | JsonRejected nat

section \<open>The store's operations\<close>

text \<open>
  \<^verbatim>\<open>cursor.sort(key, direction)\<close> is the database's sort, not code of the repository: it is a
  parameter \<open>srt\<close> of every handler that sorts, taking the key and the documents found. A
  descending sort is the sort by the negated key. Two properties of it are named:
  \<open>sort_contract\<close>, that it returns the same documents in non-decreasing order of the key,
  and \<open>keeps_ties\<close>, that it is stable: the documents of any one key value come out in the
  order they went in. A theorem that needs one of them assumes it.
\<close>

type_synonym cursor_sort = "(message_doc \<Rightarrow> int) \<Rightarrow> message_doc list \<Rightarrow> message_doc list"

definition sort_contract :: "cursor_sort \<Rightarrow> bool" where
  "sort_contract srt = (\<forall>k xs. mset (srt k xs) = mset xs \<and> sorted (map k (srt k xs)))"


text \<open>
  The query \<^verbatim>\<open>{"conversation_id": cid}\<close> with a string \<open>cid\<close>: it matches a document whose
  field is that string, and a document whose field is an array with that string among its
  elements.
\<close>

definition in_conversation :: "string \<Rightarrow> message_doc \<Rightarrow> bool" where
  "in_conversation cid m =
     (case conversation_id m of
        JStr s \<Rightarrow> s = cid
      | JList xs \<Rightarrow> JStr cid \<in> set xs
      | _ \<Rightarrow> False)"

text \<open>\<^verbatim>\<open>collection.count_documents(filter)\<close>\<close>

definition count_documents :: "('a \<Rightarrow> bool) \<Rightarrow> 'a list \<Rightarrow> nat" where
  "count_documents P xs = length (filter P xs)"

text \<open>
  \<^verbatim>\<open>collection.update_many(filter, update)\<close>: every matching document is updated in place;
  the result's \<^verbatim>\<open>modified_count\<close> is the number of documents the update changed.
\<close>

definition update_many :: "('a \<Rightarrow> bool) \<Rightarrow> ('a \<Rightarrow> 'a) \<Rightarrow> 'a list \<Rightarrow> 'a list \<times> nat" where
  "update_many P f xs =
     (map (\<lambda>d. if P d then f d else d) xs, length (filter (\<lambda>d. P d \<and> f d \<noteq> d) xs))"

text \<open>
  \<^verbatim>\<open>messages.find_one({"conversation_id": cid}, sort=[("timestamp", -1)])\<close>: the first
  document of the descending sort, \<open>None\<close> when no document matches.
\<close>

definition find_one_last :: "cursor_sort \<Rightarrow> string \<Rightarrow> message_doc list \<Rightarrow> message_doc option" where
  "find_one_last srt cid msgs =
     (case srt (\<lambda>m. - timestamp m) (filter (in_conversation cid) msgs) of
        [] \<Rightarrow> None
      | m # _ \<Rightarrow> Some m)"

text \<open>
  \<^verbatim>\<open>patients.find_one({"_id": ObjectId(p_id)})\<close>. The constructor \<^verbatim>\<open>ObjectId\<close> belongs to
  the \<^verbatim>\<open>bson\<close> library: it is the parameter \<open>ObjectId\<close>, \<open>None\<close> where it raises
  \<^verbatim>\<open>InvalidId\<close>.
\<close>

definition find_patient ::
  "(string \<Rightarrow> objectid option) \<Rightarrow> patient_doc list \<Rightarrow> string \<Rightarrow> error + patient_doc option" where
  "find_patient ObjectId pats p_id =
     (case ObjectId p_id of
        None \<Rightarrow> Inl InvalidId
      | Some oid \<Rightarrow> Inr (find (\<lambda>u. patient_oid u = oid) pats))"

text \<open>
  Python's \<^verbatim>\<open>sep.join(xs)\<close> and \<^verbatim>\<open>sub in s\<close> on strings, the truth value of a parsed JSON
  value, and \<^verbatim>\<open>data.get(key)\<close> on a parsed object, in which the last member of a name
  counts.
\<close>

fun join :: "string \<Rightarrow> string list \<Rightarrow> string" where
  "join sep [] = []"
| "join sep [x] = x"
| "join sep (x # y # ys) = x @ sep @ join sep (y # ys)"

fun contains :: "string \<Rightarrow> string \<Rightarrow> bool" where
  "contains sub [] = (sub = [])"
| "contains sub (c # cs) = (take (length sub) (c # cs) = sub \<or> contains sub cs)"

fun truthy :: "json \<Rightarrow> bool" where
  "truthy JNull = False"
| "truthy (JBool b) = b"
| "truthy (JNum r) = (r \<noteq> 0)"
| "truthy (JStr s) = (s \<noteq> [])"
| "truthy (JList xs) = (xs \<noteq> [])"
| "truthy (JObj kvs) = (kvs \<noteq> [])"

definition dict_get :: "(string \<times> json) list \<Rightarrow> string \<Rightarrow> json" where
  "dict_get kvs key = (case map_of (rev kvs) key of None \<Rightarrow> JNull | Some v \<Rightarrow> v)"

section \<open>\<^verbatim>\<open>app1.py\<close>\<close>

text \<open>The filter of the unread messages of a conversation for a viewer (lines 155-159, 178-182).\<close>

definition unread_filter :: "string \<Rightarrow> string \<Rightarrow> message_doc \<Rightarrow> bool" where
  "unread_filter cid pid m =
     (in_conversation cid m \<and> sender_id m \<noteq> pid \<and> read m = Some False)"

definition set_read :: "message_doc \<Rightarrow> message_doc" where
  "set_read m = m\<lparr>read := Some True\<rparr>"

text \<open>The body of the loop of \<^verbatim>\<open>get_conversations\<close> (lines 148-167).\<close>

definition app1_summary :: "cursor_sort \<Rightarrow> db \<Rightarrow> string \<Rightarrow> conversation_doc \<Rightarrow> summary" where
  "app1_summary srt d pid conv =
     (let last_message = find_one_last srt (conv_id conv) (messages d);
          unread_count = count_documents (unread_filter (conv_id conv) pid) (messages d)
      in \<lparr>s_id = conv_id conv,
          s_title = (case title conv of Some t \<Rightarrow> t | None \<Rightarrow> ''Conversation''),
          s_last_message =
            (case last_message of
               Some m \<Rightarrow> message m | None \<Rightarrow> JStr ''No messages yet''),
          s_timestamp =
            (case last_message of Some m \<Rightarrow> timestamp m | None \<Rightarrow> created_at conv),
          s_unread_count = Some unread_count\<rparr>)"

definition app1_get_conversations :: "cursor_sort \<Rightarrow> db \<Rightarrow> session \<Rightarrow> error + summary list" where
  "app1_get_conversations srt d sess =
     (case sess of
        None \<Rightarrow> Inl NotAuthenticated
      | Some pid \<Rightarrow>
          Inr (map (app1_summary srt d pid)
                 (filter (\<lambda>conv. pid \<in> set (participants conv)) (conversations d))))"

text \<open>The body of the loop of \<^verbatim>\<open>get_messages\<close> (lines 191-204).\<close>

definition app1_view :: "string \<Rightarrow> message_doc \<Rightarrow> message_view" where
  "app1_view pid msg =
     \<lparr>v_id = msg_id msg,
      v_sender =
        (if sender_id msg = pid then ''You''
         else if contains ''nurse'' (sender_id msg) then ''Nurse'' else ''Doctor''),
      v_message = message msg,
      v_timestamp = timestamp msg,
      v_is_own = (sender_id msg = pid)\<rparr>"

text \<open>
  \<^verbatim>\<open>get_messages\<close>: the response and the database it leaves. The count that
  \<^verbatim>\<open>update_many\<close> returns is dropped by the handler; \<open>mark_read\<close> keeps it.
\<close>

definition mark_read :: "string \<Rightarrow> string \<Rightarrow> db \<Rightarrow> db \<times> nat" where
  "mark_read cid pid d =
     (let (msgs, n) = update_many (unread_filter cid pid) set_read (messages d)
      in (d\<lparr>messages := msgs\<rparr>, n))"

definition app1_get_messages ::
  "cursor_sort \<Rightarrow> db \<Rightarrow> session \<Rightarrow> string \<Rightarrow> (error + message_view list) \<times> db" where
  "app1_get_messages srt d sess cid =
     (case sess of
        None \<Rightarrow> (Inl NotAuthenticated, d)
      | Some pid \<Rightarrow>
          (let d' = fst (mark_read cid pid d);
               found = srt timestamp (filter (in_conversation cid) (messages d'))
           in (Inr (map (app1_view pid) found), d')))"

text \<open>
  \<^verbatim>\<open>send_message\<close>: \<open>now\<close> is \<^verbatim>\<open>datetime.utcnow()\<close> and \<open>new_id\<close> the \<^verbatim>\<open>_id\<close> that
  \<^verbatim>\<open>insert_one\<close> gives the document. Whether the store takes a document (it refuses one
  that it cannot encode or that is too large, and \<^verbatim>\<open>insert_one\<close> then raises) is the
  store's matter: it is the parameter \<open>insert_ok\<close>.
\<close>

definition app1_send_message ::
  "(message_doc \<Rightarrow> bool) \<Rightarrow> db \<Rightarrow> session \<Rightarrow> request_json \<Rightarrow> datetime \<Rightarrow> string
     \<Rightarrow> (error + sent) \<times> db" where
  "app1_send_message insert_ok d sess rq now new_id =
     (case sess of
        None \<Rightarrow> (Inl NotAuthenticated, d)
      | Some pid \<Rightarrow>
          (case rq of
             JsonRejected code \<Rightarrow> (Inl (HTTPException code), d)
           | JsonValue (JObj data) \<Rightarrow>
               (let conversation_id' = dict_get data ''conversation_id'';
                    message' = dict_get data ''message''
                in if \<not> truthy conversation_id' \<or> \<not> truthy message'
                   then (Inl MissingRequiredFields, d)
                   else
                     (let new_message =
                            \<lparr>msg_id = new_id,
                             conversation_id = conversation_id',
                             sender_id = pid,
                             message = message',
                             timestamp = now,
                             read = Some False\<rparr>
                      in if insert_ok new_message
                         then (Inr MessageSent, d\<lparr>messages := messages d @ [new_message]\<rparr>)
                         else (Inl InsertFailed, d)))
           | JsonValue _ \<Rightarrow> (Inl AttributeError, d)))"

section \<open>\<^verbatim>\<open>app.py\<close>\<close>

text \<open>
  The inner loop of \<^verbatim>\<open>get_conversations\<close> (lines 88-93): the names of the participants
  other than the caller that have a patient record. \<^verbatim>\<open>ObjectId(p_id)\<close> raises on the first
  identifier that is not an object id.
\<close>

fun app_participant_names ::
  "(string \<Rightarrow> objectid option) \<Rightarrow> patient_doc list \<Rightarrow> string \<Rightarrow> string list \<Rightarrow> error + string list" where
  "app_participant_names ObjectId pats pid [] = Inr []"
| "app_participant_names ObjectId pats pid (p_id # ps) =
     (if p_id \<noteq> pid then
        (case find_patient ObjectId pats p_id of
           Inl e \<Rightarrow> Inl e
         | Inr user \<Rightarrow>
             (case app_participant_names ObjectId pats pid ps of
                Inl e \<Rightarrow> Inl e
              | Inr names \<Rightarrow>
                  Inr (case user of Some u \<Rightarrow> name u # names | None \<Rightarrow> names)))
      else app_participant_names ObjectId pats pid ps)"

definition app_summary ::
  "(string \<Rightarrow> objectid option) \<Rightarrow> cursor_sort \<Rightarrow> db \<Rightarrow> string \<Rightarrow> conversation_doc \<Rightarrow> error + summary" where
  "app_summary ObjectId srt d pid conv =
     (let last_message = find_one_last srt (conv_id conv) (messages d)
      in case app_participant_names ObjectId (patients d) pid (participants conv) of
           Inl e \<Rightarrow> Inl e
         | Inr names \<Rightarrow>
             Inr \<lparr>s_id = conv_id conv,
                  s_title = join '', '' names,
                  s_last_message =
                    (case last_message of
               Some m \<Rightarrow> message m | None \<Rightarrow> JStr ''No messages yet''),
                  s_timestamp =
                    (case last_message of Some m \<Rightarrow> timestamp m | None \<Rightarrow> created_at conv),
                  s_unread_count = None\<rparr>)"

text \<open>The outer loop: the first conversation whose summary raises ends the request.\<close>

fun app_summaries ::
  "(string \<Rightarrow> objectid option) \<Rightarrow> cursor_sort \<Rightarrow> db \<Rightarrow> string \<Rightarrow> conversation_doc list \<Rightarrow> error + summary list" where
  "app_summaries ObjectId srt d pid [] = Inr []"
| "app_summaries ObjectId srt d pid (conv # convs) =
     (case app_summary ObjectId srt d pid conv of
        Inl e \<Rightarrow> Inl e
      | Inr s \<Rightarrow>
          (case app_summaries ObjectId srt d pid convs of
             Inl e \<Rightarrow> Inl e
           | Inr ss \<Rightarrow> Inr (s # ss)))"

definition app_get_conversations ::
  "(string \<Rightarrow> objectid option) \<Rightarrow> cursor_sort \<Rightarrow> db \<Rightarrow> session \<Rightarrow> error + summary list" where
  "app_get_conversations ObjectId srt d sess =
     (case sess of
        None \<Rightarrow> Inl NotAuthenticated
      | Some pid \<Rightarrow>
          app_summaries ObjectId srt d pid
            (filter (\<lambda>conv. pid \<in> set (participants conv)) (conversations d)))"

text \<open>The loop of \<^verbatim>\<open>get_messages\<close> (lines 114-122).\<close>

fun app_views ::
  "(string \<Rightarrow> objectid option) \<Rightarrow> patient_doc list \<Rightarrow> string \<Rightarrow> message_doc list \<Rightarrow> error + message_view list" where
  "app_views ObjectId pats pid [] = Inr []"
| "app_views ObjectId pats pid (msg # msgs) =
     (case find_patient ObjectId pats (sender_id msg) of
        Inl e \<Rightarrow> Inl e
      | Inr sender \<Rightarrow>
          (case app_views ObjectId pats pid msgs of
             Inl e \<Rightarrow> Inl e
           | Inr vs \<Rightarrow>
               Inr (\<lparr>v_id = msg_id msg,
                     v_sender = (case sender of Some u \<Rightarrow> name u | None \<Rightarrow> ''Unknown''),
                     v_message = message msg,
                     v_timestamp = timestamp msg,
                     v_is_own = (sender_id msg = pid)\<rparr> # vs)))"

definition app_get_messages ::
  "(string \<Rightarrow> objectid option) \<Rightarrow> cursor_sort \<Rightarrow> db \<Rightarrow> session \<Rightarrow> string \<Rightarrow> (error + message_view list) \<times> db" where
  "app_get_messages ObjectId srt d sess cid =
     (case sess of
        None \<Rightarrow> (Inl NotAuthenticated, d)
      | Some pid \<Rightarrow>
          (app_views ObjectId (patients d) pid
             (srt timestamp (filter (in_conversation cid) (messages d))), d))"

definition app_send_message ::
  "(message_doc \<Rightarrow> bool) \<Rightarrow> db \<Rightarrow> session \<Rightarrow> request_json \<Rightarrow> datetime \<Rightarrow> string
     \<Rightarrow> (error + sent) \<times> db" where
  "app_send_message insert_ok d sess rq now new_id =
     (case sess of
        None \<Rightarrow> (Inl NotAuthenticated, d)
      | Some pid \<Rightarrow>
          (case rq of
             JsonRejected code \<Rightarrow> (Inl (HTTPException code), d)
           | JsonValue (JObj data) \<Rightarrow>
               (let conversation_id' = dict_get data ''conversation_id'';
                    message' = dict_get data ''message''
                in if \<not> truthy conversation_id' \<or> \<not> truthy message'
                   then (Inl MissingRequiredFields, d)
                   else
                     (let new_message =
                            \<lparr>msg_id = new_id,
                             conversation_id = conversation_id',
                             sender_id = pid,
                             message = message',
                             timestamp = now,
                             read = None\<rparr>
                      in if insert_ok new_message
                         then (Inr MessageSent, d\<lparr>messages := messages d @ [new_message]\<rparr>)
                         else (Inl InsertFailed, d)))
           | JsonValue _ \<Rightarrow> (Inl AttributeError, d)))"

section \<open>Notions the properties are stated with\<close>

text \<open>
  The conversations a participant takes part in: the documents that
  \<^verbatim>\<open>conversations.find({"participants": pid})\<close> returns.
\<close>

definition conversations_of :: "db \<Rightarrow> string \<Rightarrow> conversation_doc list" where
  "conversations_of d pid = filter (\<lambda>conv. pid \<in> set (participants conv)) (conversations d)"

text \<open>
  The messages of a conversation, in insertion order: the documents that the query
  \<^verbatim>\<open>{"conversation_id": cid}\<close> matches.
\<close>

definition messages_of :: "db \<Rightarrow> string \<Rightarrow> message_doc list" where
  "messages_of d cid = filter (in_conversation cid) (messages d)"

text \<open>
  The names of the patient records of the participants other than the viewer, in the order
  of the participants; a participant without a record has no name.
\<close>

definition other_patient_names ::
  "(string \<Rightarrow> objectid option) \<Rightarrow> patient_doc list \<Rightarrow> string \<Rightarrow> string list \<Rightarrow> string list" where
  "other_patient_names ObjectId pats pid ps =
     concat (map (\<lambda>p. case ObjectId p of
                         None \<Rightarrow> []
                       | Some oid \<Rightarrow>
                           (case find (\<lambda>u. patient_oid u = oid) pats of
                              None \<Rightarrow> []
                            | Some u \<Rightarrow> [name u]))
                 (filter (\<lambda>p. p \<noteq> pid) ps))"

section \<open>A sample database\<close>

text \<open>
  Three participants, named by the strings of their object ids; \<open>p1\<close> and \<open>p2\<close> have a
  patient record, \<open>p3\<close> has none, and no other string of the sample is an object id.
  Conversation \<open>c1\<close> has a stored title and two messages of equal timestamp, \<open>c2\<close> has no
  title and no messages, and \<open>p1\<close> does not take part in \<open>c3\<close>.
\<close>

abbreviation p1 :: string where "p1 \<equiv> ''64a000000000000000000001''"
abbreviation p2 :: string where "p2 \<equiv> ''64a000000000000000000002''"
abbreviation p3 :: string where "p3 \<equiv> ''64a000000000000000000003''"

definition example_db :: db where
  "example_db =
     \<lparr>patients =
        [\<lparr>patient_oid = 1, name = ''John Smith''\<rparr>,
         \<lparr>patient_oid = 2, name = ''Bob''\<rparr>],
      conversations =
        [\<lparr>conv_id = ''c1'', participants = [p1, p2],
          title = Some ''Nurse Sarah'', created_at = 10\<rparr>,
         \<lparr>conv_id = ''c2'', participants = [p1, p2],
          title = None, created_at = 20\<rparr>,
         \<lparr>conv_id = ''c3'', participants = [p2, p3],
          title = Some ''Dr. Johnson'', created_at = 30\<rparr>],
      messages =
        [\<lparr>msg_id = ''m1'', conversation_id = JStr ''c1'', sender_id = p2,
          message = JStr ''Session moved to 11am'', timestamp = 40, read = Some False\<rparr>,
         \<lparr>msg_id = ''m2'', conversation_id = JStr ''c1'', sender_id = p2,
          message = JStr ''Bring your chart'', timestamp = 40, read = Some False\<rparr>,
         \<lparr>msg_id = ''m3'', conversation_id = JStr ''c3'', sender_id = p3,
          message = JStr ''Results are in'', timestamp = 50, read = Some False\<rparr>]\<rparr>"

definition example_ObjectId :: "string \<Rightarrow> objectid option" where
  "example_ObjectId s =
     (if s = p1 then Some 1 else if s = p2 then Some 2
      else if s = p3 then Some 3 else None)"

section \<open>Facts about the store's operations\<close>

lemma sort_contract_sort_key: "sort_contract sort_key"
  by (simp add: sort_contract_def)


lemma in_conversation_set_read [simp]:
  "in_conversation cid (set_read m) = in_conversation cid m"
  by (simp add: in_conversation_def set_read_def)

lemma in_conversation_JStr [simp]:
  "in_conversation cid
     \<lparr>msg_id = i, conversation_id = JStr s, sender_id = a, message = b, timestamp = t,
      read = r\<rparr> = (s = cid)"
  by (simp add: in_conversation_def)

lemma mark_read_messages:
  "messages (fst (mark_read cid pid d)) =
     map (\<lambda>m. if unread_filter cid pid m then set_read m else m) (messages d)"
  by (simp add: mark_read_def update_many_def)

lemma mark_read_count:
  "snd (mark_read cid pid d) = count_documents (unread_filter cid pid) (messages d)"
proof -
  have "\<And>m. unread_filter cid pid m \<Longrightarrow> set_read m \<noteq> m"
    by (auto simp: unread_filter_def set_read_def dest: arg_cong [where f = read])
  then have "filter (\<lambda>m. unread_filter cid pid m \<and> set_read m \<noteq> m) (messages d)
      = filter (unread_filter cid pid) (messages d)"
    by (intro filter_cong) auto
  then show ?thesis
    by (simp add: mark_read_def update_many_def count_documents_def)
qed

lemma not_unread_after:
  "\<not> unread_filter cid pid (if unread_filter cid pid m then set_read m else m)"
  by (simp add: unread_filter_def set_read_def)

lemma unread_zero_after_mark:
  "count_documents (unread_filter cid pid) (messages (fst (mark_read cid pid d))) = 0"
  by (simp add: count_documents_def mark_read_messages filter_map o_def not_unread_after)

lemma mark_read_other_fields:
  "patients (fst (mark_read cid pid d)) = patients d"
  "conversations (fst (mark_read cid pid d)) = conversations d"
  by (simp_all add: mark_read_def update_many_def)

lemma mark_read_idem:
  "fst (mark_read cid pid (fst (mark_read cid pid d))) = fst (mark_read cid pid d)"
proof -
  have "messages (fst (mark_read cid pid (fst (mark_read cid pid d))))
      = messages (fst (mark_read cid pid d))"
    by (simp add: mark_read_messages o_def not_unread_after)
  then show ?thesis
    by (simp add: mark_read_def update_many_def split: prod.splits)
qed

section \<open>Unread count and append\<close>

text \<open>
  C5. In \<^verbatim>\<open>app1.py\<close>, a successful \<^verbatim>\<open>send_message\<close> by sender \<open>A\<close> into conversation \<open>C\<close>
  raises the unread count of \<open>C\<close> for a viewer \<open>V\<close> by exactly one when \<open>A\<close> is not \<open>V\<close>,
  and leaves it as it was when \<open>A\<close> is \<open>V\<close>. The unread count is the
  \<^verbatim>\<open>count_documents\<close> query of \<^verbatim>\<open>get_conversations\<close>.
\<close>

theorem C5_append_unread_count:
  assumes "fst (app1_send_message insert_ok d (Some A) (JsonValue (JObj data)) now new_id)
             = Inr MessageSent"
    and "dict_get data ''conversation_id'' = JStr C"
  shows "count_documents (unread_filter C V)
           (messages (snd (app1_send_message insert_ok d (Some A) (JsonValue (JObj data))
                             now new_id)))
         = count_documents (unread_filter C V) (messages d) + (if A \<noteq> V then 1 else 0)"
  using assms
  by (auto simp: app1_send_message_def count_documents_def unread_filter_def
                 in_conversation_def Let_def
           split: if_splits)

theorem C5_witness:
  "fst (app1_send_message (\<lambda>m. True) example_db (Some p2)
          (JsonValue (JObj [(''conversation_id'', JStr ''c1''), (''message'', JStr ''See you'')]))
          60 ''m4'')
     = Inr MessageSent
   \<and> count_documents (unread_filter ''c1'' p1) (messages example_db) = 2
   \<and> count_documents (unread_filter ''c1'' p1)
        (messages (snd (app1_send_message (\<lambda>m. True) example_db (Some p2)
           (JsonValue (JObj [(''conversation_id'', JStr ''c1''), (''message'', JStr ''See you'')]))
           60 ''m4''))) = 3
   \<and> count_documents (unread_filter ''c1'' p2)
        (messages (snd (app1_send_message (\<lambda>m. True) example_db (Some p2)
           (JsonValue (JObj [(''conversation_id'', JStr ''c1''), (''message'', JStr ''See you'')]))
           60 ''m4''))) = 0"
proof -
  let ?data = "[(''conversation_id'', JStr ''c1''), (''message'', JStr ''See you'')]"
  have ok: "fst (app1_send_message (\<lambda>m. True) example_db (Some p2) (JsonValue (JObj ?data))
                   60 ''m4'') = Inr MessageSent"
    by (simp add: app1_send_message_def dict_get_def)
  have c: "dict_get ?data ''conversation_id'' = JStr ''c1''"
    by (simp add: dict_get_def)
  have before1: "count_documents (unread_filter ''c1'' p1) (messages example_db) = 2"
    by (simp add: count_documents_def unread_filter_def in_conversation_def example_db_def)
  have before2: "count_documents (unread_filter ''c1'' p2) (messages example_db) = 0"
    by (simp add: count_documents_def unread_filter_def in_conversation_def example_db_def)
  show ?thesis
    using ok before1 before2
      C5_append_unread_count [OF ok c, of p1]
      C5_append_unread_count [OF ok c, of p2]
    by simp
qed

section \<open>Marking messages read\<close>

lemma get_messages_store:
  "snd (app1_get_messages srt d (Some pid) cid) = fst (mark_read cid pid d)"
  by (simp add: app1_get_messages_def Let_def)

lemma mark_read_nth:
  assumes "i < length (messages d)"
  shows "messages (fst (mark_read cid pid d)) ! i =
           (if unread_filter cid pid (messages d ! i) then set_read (messages d ! i)
            else messages d ! i)"
  using assms by (simp add: mark_read_messages)

text \<open>
  C6. Marking read is idempotent: the second of two consecutive markings of a conversation
  for a viewer modifies no message and its modified count is 0, also as the second of two
  consecutive \<^verbatim>\<open>get_messages\<close> of \<^verbatim>\<open>app1.py\<close>. A marking changes the \<^verbatim>\<open>read\<close> flag of a
  message only from false to true, and only on a message of the conversation whose sender
  is not the viewer.
\<close>

theorem C6_mark_read_idempotent:
  "snd (mark_read cid pid (fst (mark_read cid pid d))) = 0
   \<and> fst (mark_read cid pid (fst (mark_read cid pid d))) = fst (mark_read cid pid d)
   \<and> snd (app1_get_messages srt (snd (app1_get_messages srt d (Some pid) cid)) (Some pid) cid)
       = snd (app1_get_messages srt d (Some pid) cid)
   \<and> length (messages (fst (mark_read cid pid d))) = length (messages d)
   \<and> (\<forall>i < length (messages d).
        read (messages (fst (mark_read cid pid d)) ! i) \<noteq> read (messages d ! i) \<longrightarrow>
          read (messages d ! i) = Some False
          \<and> read (messages (fst (mark_read cid pid d)) ! i) = Some True
          \<and> sender_id (messages d ! i) \<noteq> pid
          \<and> in_conversation cid (messages d ! i))"
proof -
  have a: "snd (mark_read cid pid (fst (mark_read cid pid d))) = 0"
    by (simp add: mark_read_count unread_zero_after_mark)
  have b: "fst (mark_read cid pid (fst (mark_read cid pid d))) = fst (mark_read cid pid d)"
    by (rule mark_read_idem)
  have c: "snd (app1_get_messages srt (snd (app1_get_messages srt d (Some pid) cid)) (Some pid) cid)
       = snd (app1_get_messages srt d (Some pid) cid)"
    by (simp add: get_messages_store mark_read_idem)
  have l: "length (messages (fst (mark_read cid pid d))) = length (messages d)"
    by (simp add: mark_read_messages)
  have t: "\<forall>i < length (messages d).
        read (messages (fst (mark_read cid pid d)) ! i) \<noteq> read (messages d ! i) \<longrightarrow>
          read (messages d ! i) = Some False
          \<and> read (messages (fst (mark_read cid pid d)) ! i) = Some True
          \<and> sender_id (messages d ! i) \<noteq> pid
          \<and> in_conversation cid (messages d ! i)"
    by (auto simp: mark_read_nth unread_filter_def set_read_def split: if_splits)
  from a b c l t show ?thesis by blast
qed

theorem C6_witness:
  "mark_read ''c1'' p1 example_db =
     (example_db\<lparr>messages := map (\<lambda>m. if in_conversation ''c1'' m then m\<lparr>read := Some True\<rparr> else m)
                               (messages example_db)\<rparr>, 2)
   \<and> snd (mark_read ''c1'' p1 (fst (mark_read ''c1'' p1 example_db))) = 0
   \<and> read (messages (fst (mark_read ''c1'' p1 example_db)) ! 0) = Some True
   \<and> read (messages example_db ! 0) = Some False
   \<and> sender_id (messages example_db ! 0) \<noteq> p1"
proof -
  have first: "mark_read ''c1'' p1 example_db =
     (example_db\<lparr>messages := map (\<lambda>m. if in_conversation ''c1'' m then m\<lparr>read := Some True\<rparr> else m)
                               (messages example_db)\<rparr>, 2)"
    by (simp add: mark_read_def update_many_def unread_filter_def set_read_def example_db_def)
  have len: "0 < length (messages example_db)"
    by (simp add: example_db_def)
  have changed: "read (messages (fst (mark_read ''c1'' p1 example_db)) ! 0)
      \<noteq> read (messages example_db ! 0)"
    by (simp add: first) (simp add: example_db_def)
  from C6_mark_read_idempotent [of "''c1''" p1 example_db sort_key] len changed first
  show ?thesis by (metis (no_types, lifting))
qed

text \<open>
  C10. The marking that \<^verbatim>\<open>get_messages\<close> of \<^verbatim>\<open>app1.py\<close> performs leaves the patients and the
  conversations as they are, keeps every message in its place, changes no field of a
  message other than \<^verbatim>\<open>read\<close>, and leaves a message wholly unchanged when it belongs to
  another conversation or was sent by the viewer.
\<close>

theorem C10_mark_read_frame:
  assumes "d' = snd (app1_get_messages srt d (Some pid) cid)"
  shows "patients d' = patients d \<and> conversations d' = conversations d
    \<and> length (messages d') = length (messages d)
    \<and> (\<forall>i < length (messages d).
          messages d' ! i = (messages d ! i)\<lparr>read := read (messages d' ! i)\<rparr>
          \<and> (\<not> in_conversation cid (messages d ! i) \<or> sender_id (messages d ! i) = pid
               \<longrightarrow> messages d' ! i = messages d ! i))"
proof -
  have d': "d' = fst (mark_read cid pid d)"
    using assms by (simp add: get_messages_store)
  have "\<forall>i < length (messages d).
          messages d' ! i = (messages d ! i)\<lparr>read := read (messages d' ! i)\<rparr>
          \<and> (\<not> in_conversation cid (messages d ! i) \<or> sender_id (messages d ! i) = pid
               \<longrightarrow> messages d' ! i = messages d ! i)"
    by (auto simp: d' mark_read_nth unread_filter_def set_read_def)
  then show ?thesis
    by (simp add: d' mark_read_other_fields mark_read_messages)
qed

theorem C10_witness:
  "snd (app1_get_messages sort_key example_db (Some p1) ''c1'') =
     example_db\<lparr>messages := map (\<lambda>m. if in_conversation ''c1'' m then m\<lparr>read := Some True\<rparr> else m)
                               (messages example_db)\<rparr>
   \<and> messages (snd (app1_get_messages sort_key example_db (Some p1) ''c1'')) ! 2
       = messages example_db ! 2
   \<and> \<not> in_conversation ''c1'' (messages example_db ! 2)
   \<and> patients (snd (app1_get_messages sort_key example_db (Some p1) ''c1'')) = patients example_db"
proof -
  have st: "snd (app1_get_messages sort_key example_db (Some p1) ''c1'') =
     example_db\<lparr>messages := map (\<lambda>m. if in_conversation ''c1'' m then m\<lparr>read := Some True\<rparr> else m)
                               (messages example_db)\<rparr>"
    by (simp add: app1_get_messages_def mark_read_def update_many_def unread_filter_def set_read_def
          example_db_def Let_def)
  have len: "2 < length (messages example_db)"
    by (simp add: example_db_def)
  have other: "\<not> in_conversation ''c1'' (messages example_db ! 2)"
    by (simp add: example_db_def)
  from C10_mark_read_frame [OF refl, of sort_key example_db p1 "''c1''"] len other st
  show ?thesis by (metis (no_types, lifting))
qed

section \<open>Conversation summaries\<close>

lemma app1_get_conversations_eq:
  "app1_get_conversations srt d (Some pid) =
     Inr (map (app1_summary srt d pid) (conversations_of d pid))"
  by (simp add: app1_get_conversations_def conversations_of_def)

lemma app_get_conversations_eq:
  "app_get_conversations ObjectId srt d (Some pid) =
     app_summaries ObjectId srt d pid (conversations_of d pid)"
  by (simp add: app_get_conversations_def conversations_of_def)

lemma app_summaries_length:
  "app_summaries ObjectId srt d pid convs = Inr ss \<Longrightarrow> length ss = length convs"
  by (induction convs arbitrary: ss) (auto split: sum.splits)

lemma app_summaries_nth:
  "app_summaries ObjectId srt d pid convs = Inr ss \<Longrightarrow> i < length convs \<Longrightarrow>
     app_summary ObjectId srt d pid (convs ! i) = Inr (ss ! i)"
proof (induction convs arbitrary: ss i)
  case Nil
  then show ?case by simp
next
  case (Cons conv convs)
  then show ?case
    by (cases i) (auto split: sum.splits)
qed


lemma app_summary_Inr:
  assumes "app_summary ObjectId srt d pid conv = Inr s"
  shows "\<exists>names. app_participant_names ObjectId (patients d) pid (participants conv) = Inr names
           \<and> s = \<lparr>s_id = conv_id conv,
                   s_title = join '', '' names,
                   s_last_message =
                     (case find_one_last srt (conv_id conv) (messages d) of
                        Some m \<Rightarrow> message m | None \<Rightarrow> JStr ''No messages yet''),
                   s_timestamp =
                     (case find_one_last srt (conv_id conv) (messages d) of
                        Some m \<Rightarrow> timestamp m | None \<Rightarrow> created_at conv),
                   s_unread_count = None\<rparr>"
  using assms by (auto simp: app_summary_def Let_def split: sum.splits)

lemma app_summary_id:
  "app_summary ObjectId srt d pid conv = Inr s \<Longrightarrow> s_id s = conv_id conv"
  by (auto dest: app_summary_Inr)

lemma app_participant_names_eq:
  "app_participant_names ObjectId pats pid ps = Inr names \<Longrightarrow>
     names = other_patient_names ObjectId pats pid ps"
  by (induction ps arbitrary: names)
     (auto simp: other_patient_names_def find_patient_def split: sum.splits option.splits if_splits)

lemma find_one_last_none:
  assumes "sort_contract srt" and "messages_of d cid = []"
  shows "find_one_last srt cid (messages d) = None"
proof -
  have "mset (srt (\<lambda>m. - timestamp m) []) = mset ([] :: message_doc list)"
    using assms(1) unfolding sort_contract_def by blast
  then have "srt (\<lambda>m. - timestamp m) [] = []" by simp
  with assms(2) show ?thesis
    by (simp add: find_one_last_def messages_of_def)
qed

lemma unread_count_none:
  assumes "messages_of d cid = []"
  shows "count_documents (unread_filter cid pid) (messages d) = 0"
proof -
  have "\<forall>m \<in> set (messages d). \<not> in_conversation cid m"
    using assms by (simp add: messages_of_def filter_empty_conv)
  then have "filter (unread_filter cid pid) (messages d) = []"
    by (simp add: filter_empty_conv unread_filter_def)
  then show ?thesis by (simp add: count_documents_def)
qed

text \<open>
  C9. The response of \<^verbatim>\<open>get_conversations\<close>, in both variants, lists exactly the
  conversations whose participants include the caller, one summary for each, in their
  order: every summary carries the id of a conversation that the caller takes part in.
\<close>

theorem C9_summaries_of_own_conversations:
  shows "(\<forall>ss. app1_get_conversations srt d (Some pid) = Inr ss
            \<or> app_get_conversations ObjectId srt d (Some pid) = Inr ss \<longrightarrow>
          map s_id ss = map conv_id (conversations_of d pid)
          \<and> (\<forall>s \<in> set ss. \<exists>conv \<in> set (conversations d).
                 s_id s = conv_id conv \<and> pid \<in> set (participants conv)))"
proof (intro allI impI)
  fix ss
  assume r: "app1_get_conversations srt d (Some pid) = Inr ss
            \<or> app_get_conversations ObjectId srt d (Some pid) = Inr ss"
  have ids: "map s_id ss = map conv_id (conversations_of d pid)"
  proof (rule disjE [OF r])
    assume "app1_get_conversations srt d (Some pid) = Inr ss"
    then have "ss = map (app1_summary srt d pid) (conversations_of d pid)"
      by (simp add: app1_get_conversations_eq)
    then show ?thesis by (simp add: app1_summary_def Let_def o_def)
  next
    assume "app_get_conversations ObjectId srt d (Some pid) = Inr ss"
    then have a: "app_summaries ObjectId srt d pid (conversations_of d pid) = Inr ss"
      by (simp add: app_get_conversations_eq)
    show ?thesis
    proof (rule nth_equalityI)
      show "length (map s_id ss) = length (map conv_id (conversations_of d pid))"
        using app_summaries_length [OF a] by simp
    next
      fix i assume "i < length (map s_id ss)"
      then have i: "i < length (conversations_of d pid)"
        using app_summaries_length [OF a] by simp
      then show "map s_id ss ! i = map conv_id (conversations_of d pid) ! i"
        using app_summary_id [OF app_summaries_nth [OF a i]] app_summaries_length [OF a]
        by simp
    qed
  qed
  have "\<forall>s \<in> set ss. \<exists>conv \<in> set (conversations d).
                 s_id s = conv_id conv \<and> pid \<in> set (participants conv)"
  proof
    fix s assume "s \<in> set ss"
    then have "s_id s \<in> set (map s_id ss)" by simp
    then have "s_id s \<in> conv_id ` set (conversations_of d pid)"
      by (simp add: ids)
    then show "\<exists>conv \<in> set (conversations d).
                 s_id s = conv_id conv \<and> pid \<in> set (participants conv)"
      by (auto simp: conversations_of_def)
  qed
  with ids show "map s_id ss = map conv_id (conversations_of d pid)
          \<and> (\<forall>s \<in> set ss. \<exists>conv \<in> set (conversations d).
                 s_id s = conv_id conv \<and> pid \<in> set (participants conv))"
    by simp
qed

lemma example_conversations_of:
  "conversations_of example_db p1 =
     [\<lparr>conv_id = ''c1'', participants = [p1, p2],
       title = Some ''Nurse Sarah'', created_at = 10\<rparr>,
      \<lparr>conv_id = ''c2'', participants = [p1, p2],
       title = None, created_at = 20\<rparr>]"
  by (simp add: conversations_of_def example_db_def)

lemma example_find_one_last:
  "find_one_last sort_key ''c1'' (messages example_db) = Some (messages example_db ! 0)"
  "find_one_last sort_key ''c2'' (messages example_db) = None"
  by (simp_all add: find_one_last_def example_db_def)

lemma example_app1_conversations:
  "app1_get_conversations sort_key example_db (Some p1) =
     Inr [\<lparr>s_id = ''c1'', s_title = ''Nurse Sarah'',
           s_last_message = JStr ''Session moved to 11am'', s_timestamp = 40,
           s_unread_count = Some 2\<rparr>,
          \<lparr>s_id = ''c2'', s_title = ''Conversation'',
           s_last_message = JStr ''No messages yet'', s_timestamp = 20,
           s_unread_count = Some 0\<rparr>]"
  unfolding app1_get_conversations_eq example_conversations_of
  by (simp add: app1_summary_def example_find_one_last)
     (simp add: example_db_def count_documents_def unread_filter_def)

lemma example_other_names:
  "other_patient_names example_ObjectId (patients example_db) p1 [p1, p2] = [''Bob'']"
  by (simp add: other_patient_names_def example_ObjectId_def example_db_def)

lemma example_app_conversations:
  "app_get_conversations example_ObjectId sort_key example_db (Some p1) =
     Inr [\<lparr>s_id = ''c1'', s_title = ''Bob'',
           s_last_message = JStr ''Session moved to 11am'', s_timestamp = 40,
           s_unread_count = None\<rparr>,
          \<lparr>s_id = ''c2'', s_title = ''Bob'',
           s_last_message = JStr ''No messages yet'', s_timestamp = 20,
           s_unread_count = None\<rparr>]"
  unfolding app_get_conversations_eq example_conversations_of
  by (simp add: app_summary_def example_find_one_last find_patient_def example_ObjectId_def)
     (simp add: example_db_def)

theorem C9_witness:
  "app1_get_conversations sort_key example_db (Some p1) =
     Inr (map (app1_summary sort_key example_db p1) (conversations_of example_db p1))
   \<and> map s_id (map (app1_summary sort_key example_db p1) (conversations_of example_db p1))
       = [''c1'', ''c2'']
   \<and> (\<exists>ss. app_get_conversations example_ObjectId sort_key example_db (Some p1) = Inr ss
           \<and> map s_id ss = [''c1'', ''c2''])
   \<and> conv_id (conversations example_db ! 2) = ''c3''
   \<and> p1 \<notin> set (participants (conversations example_db ! 2))"
proof -
  have r: "app1_get_conversations sort_key example_db (Some p1) =
     Inr (map (app1_summary sort_key example_db p1) (conversations_of example_db p1))"
    by (rule app1_get_conversations_eq)
  have "map s_id (map (app1_summary sort_key example_db p1) (conversations_of example_db p1))
          = map conv_id (conversations_of example_db p1)"
    using C9_summaries_of_own_conversations
            [of sort_key example_db p1 example_ObjectId, rule_format, OF disjI1 [OF r]]
    by (rule conjunct1)
  moreover have "\<exists>ss. app_get_conversations example_ObjectId sort_key example_db (Some p1) = Inr ss
           \<and> map s_id ss = map conv_id (conversations_of example_db p1)"
    using C9_summaries_of_own_conversations
            [of sort_key example_db p1 example_ObjectId, rule_format,
             OF disjI2 [OF example_app_conversations]]
          example_app_conversations
    by blast
  moreover have "map conv_id (conversations_of example_db p1) = [''c1'', ''c2'']"
    by (simp add: example_conversations_of)
  moreover have "conv_id (conversations example_db ! 2) = ''c3''"
    and "p1 \<notin> set (participants (conversations example_db ! 2))"
    by (simp_all add: example_db_def)
  ultimately show ?thesis using r by simp
qed

text \<open>
  C7. For a conversation without messages, the summary that \<^verbatim>\<open>get_conversations\<close> returns
  for it has \<^verbatim>\<open>last_message\<close> equal to \<^verbatim>\<open>"No messages yet"\<close> and \<^verbatim>\<open>timestamp\<close> equal to the
  conversation's \<^verbatim>\<open>created_at\<close>, in both variants; \<^verbatim>\<open>unread_count\<close> is 0 in \<^verbatim>\<open>app1.py\<close>, and
  \<^verbatim>\<open>app.py\<close> emits no \<^verbatim>\<open>unread_count\<close>.
\<close>

theorem C7_empty_conversation_summary:
  assumes "sort_contract srt"
    and "i < length (conversations_of d pid)"
    and "messages_of d (conv_id (conversations_of d pid ! i)) = []"
  shows "(\<forall>ss. app1_get_conversations srt d (Some pid) = Inr ss \<longrightarrow>
            s_id (ss ! i) = conv_id (conversations_of d pid ! i)
            \<and> s_last_message (ss ! i) = JStr ''No messages yet''
            \<and> s_timestamp (ss ! i) = created_at (conversations_of d pid ! i)
            \<and> s_unread_count (ss ! i) = Some 0)
       \<and> (\<forall>ss. app_get_conversations ObjectId srt d (Some pid) = Inr ss \<longrightarrow>
            s_id (ss ! i) = conv_id (conversations_of d pid ! i)
            \<and> s_last_message (ss ! i) = JStr ''No messages yet''
            \<and> s_timestamp (ss ! i) = created_at (conversations_of d pid ! i)
            \<and> s_unread_count (ss ! i) = None)"
proof -
  let ?conv = "conversations_of d pid ! i"
  have last: "find_one_last srt (conv_id ?conv) (messages d) = None"
    using assms(1,3) by (rule find_one_last_none)
  have unread: "count_documents (unread_filter (conv_id ?conv) pid) (messages d) = 0"
    using assms(3) by (rule unread_count_none)
  have one: "\<forall>ss. app1_get_conversations srt d (Some pid) = Inr ss \<longrightarrow>
            s_id (ss ! i) = conv_id ?conv
            \<and> s_last_message (ss ! i) = JStr ''No messages yet''
            \<and> s_timestamp (ss ! i) = created_at ?conv
            \<and> s_unread_count (ss ! i) = Some 0"
    using assms(2) by (auto simp: app1_get_conversations_eq app1_summary_def last unread)
  have two: "\<forall>ss. app_get_conversations ObjectId srt d (Some pid) = Inr ss \<longrightarrow>
            s_id (ss ! i) = conv_id ?conv
            \<and> s_last_message (ss ! i) = JStr ''No messages yet''
            \<and> s_timestamp (ss ! i) = created_at ?conv
            \<and> s_unread_count (ss ! i) = None"
  proof (intro allI impI)
    fix ss
    assume "app_get_conversations ObjectId srt d (Some pid) = Inr ss"
    then have "app_summary ObjectId srt d pid ?conv = Inr (ss ! i)"
      using assms(2) by (simp add: app_get_conversations_eq app_summaries_nth)
    from app_summary_Inr [OF this]
    show "s_id (ss ! i) = conv_id ?conv
            \<and> s_last_message (ss ! i) = JStr ''No messages yet''
            \<and> s_timestamp (ss ! i) = created_at ?conv
            \<and> s_unread_count (ss ! i) = None"
      by (auto simp: last)
  qed
  from one two show ?thesis by (rule conjI)
qed

theorem C7_witness:
  "sort_contract sort_key
   \<and> messages_of example_db (conv_id (conversations_of example_db p1 ! 1)) = []
   \<and> app1_get_conversations sort_key example_db (Some p1)
       = Inr (map (app1_summary sort_key example_db p1) (conversations_of example_db p1))
   \<and> s_last_message (map (app1_summary sort_key example_db p1)
                        (conversations_of example_db p1) ! 1) = JStr ''No messages yet''
   \<and> s_timestamp (map (app1_summary sort_key example_db p1)
                     (conversations_of example_db p1) ! 1) = 20
   \<and> s_unread_count (map (app1_summary sort_key example_db p1)
                        (conversations_of example_db p1) ! 1) = Some 0"
proof -
  have i: "1 < length (conversations_of example_db p1)"
    by (simp add: example_conversations_of)
  have e: "messages_of example_db (conv_id (conversations_of example_db p1 ! 1)) = []"
    by (simp add: example_conversations_of) (simp add: messages_of_def example_db_def)
  have r: "app1_get_conversations sort_key example_db (Some p1)
       = Inr (map (app1_summary sort_key example_db p1) (conversations_of example_db p1))"
    by (rule app1_get_conversations_eq)
  have c: "created_at (conversations_of example_db p1 ! 1) = 20"
    by (simp add: example_conversations_of)
  from C7_empty_conversation_summary [OF sort_contract_sort_key i e, of example_ObjectId,
         THEN conjunct1, rule_format, OF r]
  show ?thesis using sort_contract_sort_key e r c by simp
qed

theorem C7_counterexample:
  "messages_of example_db ''c2'' = []
   \<and> app1_get_conversations sort_key example_db (Some p1) =
       Inr [\<lparr>s_id = ''c1'', s_title = ''Nurse Sarah'',
             s_last_message = JStr ''Session moved to 11am'', s_timestamp = 40,
             s_unread_count = Some 2\<rparr>,
            \<lparr>s_id = ''c2'', s_title = ''Conversation'',
             s_last_message = JStr ''No messages yet'', s_timestamp = 20,
             s_unread_count = Some 0\<rparr>]
   \<and> app_get_conversations example_ObjectId sort_key example_db (Some p1) =
       Inr [\<lparr>s_id = ''c1'', s_title = ''Bob'',
             s_last_message = JStr ''Session moved to 11am'', s_timestamp = 40,
             s_unread_count = None\<rparr>,
            \<lparr>s_id = ''c2'', s_title = ''Bob'',
             s_last_message = JStr ''No messages yet'', s_timestamp = 20,
             s_unread_count = None\<rparr>]
   \<and> JStr ''No messages yet'' \<noteq> JStr ''no messages yet''"
  using example_app1_conversations example_app_conversations
  by (simp add: messages_of_def example_db_def)

text \<open>
  C8. The title of a summary: in \<^verbatim>\<open>app1.py\<close> it is the conversation's stored title when the
  document has one and the literal \<^verbatim>\<open>"Conversation"\<close> otherwise; in \<^verbatim>\<open>app.py\<close> it is always
  the names of the patient records of the participants other than the caller, in the order
  of the participants, joined by a comma and a space, whatever the stored title.
\<close>

theorem C8_summary_title:
  assumes "i < length (conversations_of d pid)"
  shows "(\<forall>ss. app1_get_conversations srt d (Some pid) = Inr ss \<longrightarrow>
            s_id (ss ! i) = conv_id (conversations_of d pid ! i)
            \<and> s_title (ss ! i) =
                (case title (conversations_of d pid ! i) of
                   Some t \<Rightarrow> t | None \<Rightarrow> ''Conversation''))
       \<and> (\<forall>ss. app_get_conversations ObjectId srt d (Some pid) = Inr ss \<longrightarrow>
            s_id (ss ! i) = conv_id (conversations_of d pid ! i)
            \<and> s_title (ss ! i) =
                join '', '' (other_patient_names ObjectId (patients d) pid
                               (participants (conversations_of d pid ! i))))"
proof -
  let ?conv = "conversations_of d pid ! i"
  have one: "\<forall>ss. app1_get_conversations srt d (Some pid) = Inr ss \<longrightarrow>
            s_id (ss ! i) = conv_id ?conv
            \<and> s_title (ss ! i) = (case title ?conv of Some t \<Rightarrow> t | None \<Rightarrow> ''Conversation'')"
    using assms by (auto simp: app1_get_conversations_eq app1_summary_def Let_def)
  have two: "\<forall>ss. app_get_conversations ObjectId srt d (Some pid) = Inr ss \<longrightarrow>
            s_id (ss ! i) = conv_id ?conv
            \<and> s_title (ss ! i) =
                join '', '' (other_patient_names ObjectId (patients d) pid (participants ?conv))"
  proof (intro allI impI)
    fix ss
    assume "app_get_conversations ObjectId srt d (Some pid) = Inr ss"
    then have "app_summary ObjectId srt d pid ?conv = Inr (ss ! i)"
      using assms by (simp add: app_get_conversations_eq app_summaries_nth)
    from app_summary_Inr [OF this]
    show "s_id (ss ! i) = conv_id ?conv
            \<and> s_title (ss ! i) =
                join '', '' (other_patient_names ObjectId (patients d) pid (participants ?conv))"
      by (auto dest: app_participant_names_eq)
  qed
  from one two show ?thesis by (rule conjI)
qed

theorem C8_witness:
  "app_get_conversations example_ObjectId sort_key example_db (Some p1) =
       Inr [\<lparr>s_id = ''c1'', s_title = ''Bob'',
             s_last_message = JStr ''Session moved to 11am'', s_timestamp = 40,
             s_unread_count = None\<rparr>,
            \<lparr>s_id = ''c2'', s_title = ''Bob'',
             s_last_message = JStr ''No messages yet'', s_timestamp = 20,
             s_unread_count = None\<rparr>]
   \<and> join '', '' (other_patient_names example_ObjectId (patients example_db) p1
                    (participants (conversations_of example_db p1 ! 0))) = ''Bob''
   \<and> join '', '' [''Bob'', ''John Smith''] = ''Bob, John Smith''"
proof -
  have i: "0 < length (conversations_of example_db p1)"
    by (simp add: example_conversations_of)
  from C8_summary_title [OF i, of sort_key example_ObjectId, THEN conjunct2, rule_format,
         OF example_app_conversations]
  show ?thesis using example_app_conversations by simp
qed

theorem C8_counterexample:
  "map title (conversations_of example_db p1) = [Some ''Nurse Sarah'', None]
   \<and> app_get_conversations example_ObjectId sort_key example_db (Some p1) =
       Inr [\<lparr>s_id = ''c1'', s_title = ''Bob'',
             s_last_message = JStr ''Session moved to 11am'', s_timestamp = 40,
             s_unread_count = None\<rparr>,
            \<lparr>s_id = ''c2'', s_title = ''Bob'',
             s_last_message = JStr ''No messages yet'', s_timestamp = 20,
             s_unread_count = None\<rparr>]
   \<and> app1_get_conversations sort_key example_db (Some p1) =
       Inr [\<lparr>s_id = ''c1'', s_title = ''Nurse Sarah'',
             s_last_message = JStr ''Session moved to 11am'', s_timestamp = 40,
             s_unread_count = Some 2\<rparr>,
            \<lparr>s_id = ''c2'', s_title = ''Conversation'',
             s_last_message = JStr ''No messages yet'', s_timestamp = 20,
             s_unread_count = Some 0\<rparr>]
   \<and> join '', '' (other_patient_names example_ObjectId (patients example_db) p1
                    [p1, p2]) = ''Bob''"
  using example_app1_conversations example_app_conversations example_other_names
  by (simp add: example_conversations_of)

section \<open>Opening a conversation\<close>

lemma unread_of_summary:
  "s_unread_count (app1_summary srt d pid conv)
     = Some (count_documents (unread_filter (conv_id conv) pid) (messages d))"
  by (simp add: app1_summary_def Let_def)

text \<open>
  C3. In \<^verbatim>\<open>app1.py\<close>, \<^verbatim>\<open>get_messages\<close> of an authenticated viewer marks the conversation
  read for the viewer first, builds the list it returns from the store so marked, and
  leaves that store behind: the unread count of the conversation for the viewer is then 0,
  in the store and in every summary of that conversation that a following
  \<^verbatim>\<open>get_conversations\<close> of the viewer returns.
\<close>

theorem C3_open_conversation_marks_read:
  assumes "app1_get_messages srt d (Some V) C = (r, d')"
  shows "d' = fst (mark_read C V d)
       \<and> r = Inr (map (app1_view V) (srt timestamp (messages_of d' C)))
       \<and> count_documents (unread_filter C V) (messages d') = 0
       \<and> (\<forall>ss. app1_get_conversations srt' d' (Some V) = Inr ss \<longrightarrow>
            (\<forall>s \<in> set ss. s_id s = C \<longrightarrow> s_unread_count s = Some 0))"
proof -
  have d': "d' = fst (mark_read C V d)"
    using assms by (simp add: app1_get_messages_def Let_def)
  have r: "r = Inr (map (app1_view V) (srt timestamp (messages_of d' C)))"
    using assms by (auto simp: app1_get_messages_def Let_def messages_of_def)
  have z: "count_documents (unread_filter C V) (messages d') = 0"
    by (simp add: d' unread_zero_after_mark)
  have "\<forall>ss. app1_get_conversations srt' d' (Some V) = Inr ss \<longrightarrow>
            (\<forall>s \<in> set ss. s_id s = C \<longrightarrow> s_unread_count s = Some 0)"
    by (auto simp: app1_get_conversations_eq app1_summary_def Let_def z)
  with d' r z show ?thesis by blast
qed

theorem C3_witness:
  "s_unread_count (app1_summary sort_key example_db p1 (conversations_of example_db p1 ! 0))
     = Some 2
   \<and> count_documents (unread_filter ''c1'' p1)
        (messages (snd (app1_get_messages sort_key example_db (Some p1) ''c1''))) = 0
   \<and> (\<exists>vs. fst (app1_get_messages sort_key example_db (Some p1) ''c1'') = Inr vs)"
proof -
  have before: "s_unread_count (app1_summary sort_key example_db p1
                   (conversations_of example_db p1 ! 0)) = Some 2"
    by (simp add: unread_of_summary example_conversations_of)
       (simp add: count_documents_def unread_filter_def example_db_def)
  from C3_open_conversation_marks_read
         [OF surjective_pairing, of sort_key example_db p1 "''c1''" sort_key]
  show ?thesis using before by blast
qed

theorem C3_counterexample:
  "app_get_messages example_ObjectId sort_key example_db (Some p1) ''c1'' =
     (Inr [\<lparr>v_id = ''m1'', v_sender = ''Bob'', v_message = JStr ''Session moved to 11am'',
            v_timestamp = 40, v_is_own = False\<rparr>,
           \<lparr>v_id = ''m2'', v_sender = ''Bob'', v_message = JStr ''Bring your chart'',
            v_timestamp = 40, v_is_own = False\<rparr>],
      example_db)
   \<and> count_documents (unread_filter ''c1'' p1) (messages example_db) = 2"
proof -
  have "messages_of example_db ''c1'' = [messages example_db ! 0, messages example_db ! 1]"
    by (simp add: messages_of_def example_db_def)
  then have "app_get_messages example_ObjectId sort_key example_db (Some p1) ''c1'' =
     (app_views example_ObjectId (patients example_db) p1
        [messages example_db ! 0, messages example_db ! 1], example_db)"
    by (simp add: app_get_messages_def messages_of_def) (simp add: example_db_def)
  moreover have "app_views example_ObjectId (patients example_db) p1
        [messages example_db ! 0, messages example_db ! 1] =
      Inr [\<lparr>v_id = ''m1'', v_sender = ''Bob'', v_message = JStr ''Session moved to 11am'',
            v_timestamp = 40, v_is_own = False\<rparr>,
           \<lparr>v_id = ''m2'', v_sender = ''Bob'', v_message = JStr ''Bring your chart'',
            v_timestamp = 40, v_is_own = False\<rparr>]"
    by (simp add: find_patient_def example_ObjectId_def example_db_def)
  moreover have "count_documents (unread_filter ''c1'' p1) (messages example_db) = 2"
    by (simp add: count_documents_def unread_filter_def example_db_def)
  ultimately show ?thesis by simp
qed

section \<open>Sending a message\<close>

text \<open>
  C1. For an authenticated caller, \<^verbatim>\<open>send_message\<close> has these outcomes and no other, in
  both variants. When the body is a JSON object: \<^verbatim>\<open>400 Missing required fields\<close>, with the
  store unchanged, when \<^verbatim>\<open>conversation_id\<close> or \<^verbatim>\<open>message\<close> is absent, null or another value
  that Python counts as false (\<^verbatim>\<open>false\<close>, \<^verbatim>\<open>0\<close>, an empty string, array or object);
  otherwise the new message is handed to \<^verbatim>\<open>insert_one\<close> (with \<^verbatim>\<open>read\<close> false in \<^verbatim>\<open>app1.py\<close>,
  without \<^verbatim>\<open>read\<close> in \<^verbatim>\<open>app.py\<close>) and the response is success when the store takes it,
  whatever the conversations in the store, whoever their participants and however long
  the body. When the body is a JSON value other than an object, \<^verbatim>\<open>data.get\<close> raises
  \<^verbatim>\<open>AttributeError\<close>; when \<^verbatim>\<open>request.json\<close> raises, the framework's error is the response;
  when the store refuses the document, the exception of \<^verbatim>\<open>insert_one\<close> is. In each of these
  the store is unchanged.
\<close>

theorem C1_send_message_outcomes:
  "(rq = JsonValue (JObj data)
      \<and> truthy (dict_get data ''conversation_id'') \<and> truthy (dict_get data ''message'')
      \<longrightarrow>
      app1_send_message insert_ok d (Some pid) rq now new_id =
        (if insert_ok
              \<lparr>msg_id = new_id, conversation_id = dict_get data ''conversation_id'',
               sender_id = pid, message = dict_get data ''message'', timestamp = now,
               read = Some False\<rparr>
         then (Inr MessageSent,
               d\<lparr>messages := messages d @
                   [\<lparr>msg_id = new_id, conversation_id = dict_get data ''conversation_id'',
                     sender_id = pid, message = dict_get data ''message'', timestamp = now,
                     read = Some False\<rparr>]\<rparr>)
         else (Inl InsertFailed, d))
      \<and> app_send_message insert_ok d (Some pid) rq now new_id =
        (if insert_ok
              \<lparr>msg_id = new_id, conversation_id = dict_get data ''conversation_id'',
               sender_id = pid, message = dict_get data ''message'', timestamp = now,
               read = None\<rparr>
         then (Inr MessageSent,
               d\<lparr>messages := messages d @
                   [\<lparr>msg_id = new_id, conversation_id = dict_get data ''conversation_id'',
                     sender_id = pid, message = dict_get data ''message'', timestamp = now,
                     read = None\<rparr>]\<rparr>)
         else (Inl InsertFailed, d)))
   \<and> (rq = JsonValue (JObj data)
      \<and> (\<not> truthy (dict_get data ''conversation_id'') \<or> \<not> truthy (dict_get data ''message''))
      \<longrightarrow>
      app1_send_message insert_ok d (Some pid) rq now new_id = (Inl MissingRequiredFields, d)
      \<and> app_send_message insert_ok d (Some pid) rq now new_id = (Inl MissingRequiredFields, d))
   \<and> (rq = JsonValue body \<and> (\<forall>kvs. body \<noteq> JObj kvs)
      \<longrightarrow>
      app1_send_message insert_ok d (Some pid) rq now new_id = (Inl AttributeError, d)
      \<and> app_send_message insert_ok d (Some pid) rq now new_id = (Inl AttributeError, d))
   \<and> (rq = JsonRejected code
      \<longrightarrow>
      app1_send_message insert_ok d (Some pid) rq now new_id = (Inl (HTTPException code), d)
      \<and> app_send_message insert_ok d (Some pid) rq now new_id = (Inl (HTTPException code), d))"
proof -
  have other: "app1_send_message insert_ok d (Some pid) (JsonValue body) now new_id
                 = (Inl AttributeError, d)
             \<and> app_send_message insert_ok d (Some pid) (JsonValue body) now new_id
                 = (Inl AttributeError, d)"
    if "\<forall>kvs. body \<noteq> JObj kvs"
    using that by (cases body) (simp_all add: app1_send_message_def app_send_message_def)
  show ?thesis
    using other by (auto simp: app1_send_message_def app_send_message_def Let_def)
qed

lemma falsy_values:
  "(\<not> truthy v) = (v \<in> {JNull, JBool False, JNum 0, JStr [], JList [], JObj []})"
  by (cases v) auto

lemma dict_get_absent:
  "key \<notin> fst ` set kvs \<Longrightarrow> dict_get kvs key = JNull"
proof -
  assume "key \<notin> fst ` set kvs"
  then have "key \<notin> fst ` set (rev kvs)" by simp
  then have "map_of (rev kvs) key = None" by (simp add: map_of_eq_None_iff)
  then show ?thesis by (simp add: dict_get_def)
qed

theorem C1_witness:
  "app1_send_message (\<lambda>m. True) example_db (Some p1)
      (JsonValue (JObj [(''conversation_id'', JStr ''c1''), (''message'', JStr ''Thank you'')]))
      60 ''m4'' =
     (Inr MessageSent,
      example_db\<lparr>messages := messages example_db @
         [\<lparr>msg_id = ''m4'', conversation_id = JStr ''c1'', sender_id = p1,
           message = JStr ''Thank you'', timestamp = 60, read = Some False\<rparr>]\<rparr>)
   \<and> app_send_message (\<lambda>m. True) example_db (Some p1)
      (JsonValue (JObj [(''conversation_id'', JStr ''c1''), (''message'', JStr [])]))
      60 ''m4'' =
     (Inl MissingRequiredFields, example_db)
   \<and> app1_send_message (\<lambda>m. True) example_db (Some p1)
      (JsonValue (JObj [(''conversation_id'', JStr ''c1''), (''message'', JNum 0)]))
      60 ''m4'' =
     (Inl MissingRequiredFields, example_db)
   \<and> app1_send_message (\<lambda>m. True) example_db (Some p1) (JsonValue JNull) 60 ''m4'' =
     (Inl AttributeError, example_db)
   \<and> app1_send_message (\<lambda>m. True) example_db (Some p1)
      (JsonValue (JList [JStr ''c1'', JStr ''Thank you''])) 60 ''m4'' =
     (Inl AttributeError, example_db)"
proof -
  let ?ok = "[(''conversation_id'', JStr ''c1''), (''message'', JStr ''Thank you'')]"
  let ?empty = "[(''conversation_id'', JStr ''c1''), (''message'', JStr [])]"
  let ?zero = "[(''conversation_id'', JStr ''c1''), (''message'', JNum 0)]"
  have g: "dict_get ?ok ''conversation_id'' = JStr ''c1''"
     "dict_get ?ok ''message'' = JStr ''Thank you''"
     "dict_get ?empty ''message'' = JStr []"
     "dict_get ?zero ''message'' = JNum 0"
    by (simp_all add: dict_get_def)
  show ?thesis
    using
      C1_send_message_outcomes
        [of "JsonValue (JObj ?ok)" ?ok "\<lambda>m. True" example_db p1 60 "''m4''"]
      C1_send_message_outcomes
        [of "JsonValue (JObj ?empty)" ?empty "\<lambda>m. True" example_db p1 60 "''m4''"]
      C1_send_message_outcomes
        [of "JsonValue (JObj ?zero)" ?zero "\<lambda>m. True" example_db p1 60 "''m4''"]
      C1_send_message_outcomes
        [of "JsonValue JNull" "[]" "\<lambda>m. True" example_db p1 60 "''m4''" JNull]
      C1_send_message_outcomes
        [of "JsonValue (JList [JStr ''c1'', JStr ''Thank you''])" "[]" "\<lambda>m. True" example_db p1
            60 "''m4''" "JList [JStr ''c1'', JStr ''Thank you'']"]
    by (simp add: g)
qed

theorem C1_counterexample:
  "''ghost'' \<notin> set (map conv_id (conversations example_db))
   \<and> app1_send_message (\<lambda>m. True) example_db (Some p1)
        (JsonValue (JObj [(''conversation_id'', JStr ''ghost''), (''message'', JStr ''hi'')]))
        60 ''m4'' =
       (Inr MessageSent,
        example_db\<lparr>messages := messages example_db @
           [\<lparr>msg_id = ''m4'', conversation_id = JStr ''ghost'', sender_id = p1,
             message = JStr ''hi'', timestamp = 60, read = Some False\<rparr>]\<rparr>)
   \<and> conv_id (conversations example_db ! 2) = ''c3''
   \<and> p1 \<notin> set (participants (conversations example_db ! 2))
   \<and> app1_send_message (\<lambda>m. True) example_db (Some p1)
        (JsonValue (JObj [(''conversation_id'', JStr ''c3''), (''message'', JStr ''hi'')]))
        60 ''m4'' =
       (Inr MessageSent,
        example_db\<lparr>messages := messages example_db @
           [\<lparr>msg_id = ''m4'', conversation_id = JStr ''c3'', sender_id = p1,
             message = JStr ''hi'', timestamp = 60, read = Some False\<rparr>]\<rparr>)"
proof -
  have "''ghost'' \<notin> set (map conv_id (conversations example_db))"
    and "conv_id (conversations example_db ! 2) = ''c3''"
    and "p1 \<notin> set (participants (conversations example_db ! 2))"
    by (simp_all add: example_db_def)
  then show ?thesis by (simp add: app1_send_message_def dict_get_def)
qed

section \<open>Listing the messages of a conversation\<close>

lemma contract_mset_map:
  assumes "sort_contract srt"
  shows "mset (map f (srt k xs)) = mset (map f xs)"
proof -
  have "mset (srt k xs) = mset xs"
    using assms unfolding sort_contract_def by blast
  then have "image_mset f (mset (srt k xs)) = image_mset f (mset xs)" by simp
  then show ?thesis by simp
qed


lemma messages_of_mark_read:
  "messages_of (fst (mark_read cid pid d)) c =
     map (\<lambda>m. if unread_filter cid pid m then set_read m else m) (messages_of d c)"
proof -
  have "\<And>m. in_conversation cid' (if unread_filter cid pid m then set_read m else m)
           = in_conversation cid' m" for cid'
    by simp
  then show ?thesis
    by (simp add: messages_of_def mark_read_messages filter_map o_def)
qed

lemma msg_id_mark_read:
  "map msg_id (messages_of (fst (mark_read cid pid d)) c) = map msg_id (messages_of d c)"
  by (simp add: messages_of_mark_read o_def set_read_def if_distrib cong: if_cong)

lemma app1_get_messages_eq:
  "app1_get_messages srt d (Some pid) cid =
     (Inr (map (app1_view pid) (srt timestamp (messages_of (fst (mark_read cid pid d)) cid))),
      fst (mark_read cid pid d))"
  by (simp add: app1_get_messages_def messages_of_def Let_def)

lemma app_get_messages_eq:
  "app_get_messages ObjectId srt d (Some pid) cid =
     (app_views ObjectId (patients d) pid (srt timestamp (messages_of d cid)), d)"
  by (simp add: app_get_messages_def messages_of_def)

lemma app1_view_fields:
  "map v_id (map (app1_view pid) xs) = map msg_id xs"
  "map v_timestamp (map (app1_view pid) xs) = map timestamp xs"
  by (simp_all add: app1_view_def o_def)

lemma app_views_fields:
  "app_views ObjectId pats pid xs = Inr vs \<Longrightarrow>
     map v_id vs = map msg_id xs \<and> map v_timestamp vs = map timestamp xs"
  by (induction xs arbitrary: vs) (auto split: sum.splits)

lemma app_views_error:
  "app_views ObjectId pats pid xs = Inl e \<Longrightarrow> e = InvalidId"
  by (induction xs) (auto simp: find_patient_def split: sum.splits option.splits)

text \<open>
  C2. For every conversation id and every authenticated viewer, \<^verbatim>\<open>get_messages\<close> returns
  the messages stored under that conversation id, whether or not the viewer is one of the
  conversation's participants: the response does not depend on the conversations
  collection. \<^verbatim>\<open>app1.py\<close> always returns the list; \<^verbatim>\<open>app.py\<close> returns the list or ends with
  \<^verbatim>\<open>InvalidId\<close>, raised for a sender id that is not an object id.
\<close>

theorem C2_get_messages_any_viewer:
  assumes "sort_contract srt"
  shows "(\<exists>vs. fst (app1_get_messages srt d (Some pid) cid) = Inr vs
              \<and> mset (map v_id vs) = mset (map msg_id (messages_of d cid)))
       \<and> fst (app1_get_messages srt (d\<lparr>conversations := cs\<rparr>) (Some pid) cid)
           = fst (app1_get_messages srt d (Some pid) cid)
       \<and> (fst (app_get_messages ObjectId srt d (Some pid) cid) = Inl InvalidId
           \<or> (\<exists>vs. fst (app_get_messages ObjectId srt d (Some pid) cid) = Inr vs
                 \<and> mset (map v_id vs) = mset (map msg_id (messages_of d cid))))
       \<and> fst (app_get_messages ObjectId srt (d\<lparr>conversations := cs\<rparr>) (Some pid) cid)
           = fst (app_get_messages ObjectId srt d (Some pid) cid)"
proof -
  have a: "\<exists>vs. fst (app1_get_messages srt d (Some pid) cid) = Inr vs
              \<and> mset (map v_id vs) = mset (map msg_id (messages_of d cid))"
  proof (intro exI conjI)
    show "fst (app1_get_messages srt d (Some pid) cid) =
        Inr (map (app1_view pid) (srt timestamp (messages_of (fst (mark_read cid pid d)) cid)))"
      by (simp add: app1_get_messages_eq)
    show "mset (map v_id (map (app1_view pid)
                 (srt timestamp (messages_of (fst (mark_read cid pid d)) cid))))
        = mset (map msg_id (messages_of d cid))"
      by (simp only: app1_view_fields contract_mset_map [OF assms] msg_id_mark_read)
  qed
  have b: "fst (app1_get_messages srt (d\<lparr>conversations := cs\<rparr>) (Some pid) cid)
           = fst (app1_get_messages srt d (Some pid) cid)"
    by (simp add: app1_get_messages_eq messages_of_def mark_read_messages)
  have c: "fst (app_get_messages ObjectId srt d (Some pid) cid) = Inl InvalidId
           \<or> (\<exists>vs. fst (app_get_messages ObjectId srt d (Some pid) cid) = Inr vs
                 \<and> mset (map v_id vs) = mset (map msg_id (messages_of d cid)))"
  proof (cases "app_views ObjectId (patients d) pid (srt timestamp (messages_of d cid))")
    case (Inl e)
    then show ?thesis
      using app_views_error [OF Inl] by (simp add: app_get_messages_eq)
  next
    case (Inr vs)
    have "map v_id vs = map msg_id (srt timestamp (messages_of d cid))"
      using app_views_fields [OF Inr] by simp
    then have "mset (map v_id vs) = mset (map msg_id (messages_of d cid))"
      by (simp only: contract_mset_map [OF assms])
    moreover have "fst (app_get_messages ObjectId srt d (Some pid) cid) = Inr vs"
      using Inr by (simp add: app_get_messages_eq)
    ultimately show ?thesis by blast
  qed
  have e: "fst (app_get_messages ObjectId srt (d\<lparr>conversations := cs\<rparr>) (Some pid) cid)
           = fst (app_get_messages ObjectId srt d (Some pid) cid)"
    by (simp add: app_get_messages_eq messages_of_def)
  from a b c e show ?thesis by blast
qed

lemma example_messages_of:
  "messages_of example_db ''c1'' = [messages example_db ! 0, messages example_db ! 1]"
  "messages_of example_db ''c3'' = [messages example_db ! 2]"
  by (simp_all add: messages_of_def example_db_def)

lemma example_app1_messages_c3:
  "fst (app1_get_messages sort_key example_db (Some p1) ''c3'') =
     Inr [\<lparr>v_id = ''m3'', v_sender = ''Doctor'', v_message = JStr ''Results are in'',
           v_timestamp = 50, v_is_own = False\<rparr>]"
  by (simp add: app1_get_messages_eq messages_of_mark_read example_messages_of)
     (simp add: app1_view_def unread_filter_def set_read_def example_db_def)

lemma example_app_messages_c3:
  "fst (app_get_messages example_ObjectId sort_key example_db (Some p1) ''c3'') =
     Inr [\<lparr>v_id = ''m3'', v_sender = ''Unknown'', v_message = JStr ''Results are in'',
           v_timestamp = 50, v_is_own = False\<rparr>]"
  by (simp add: app_get_messages_eq example_messages_of)
     (simp add: find_patient_def example_ObjectId_def example_db_def)

theorem C2_witness:
  "sort_contract sort_key
   \<and> fst (app1_get_messages sort_key example_db (Some p1) ''c3'') =
       Inr [\<lparr>v_id = ''m3'', v_sender = ''Doctor'', v_message = JStr ''Results are in'',
             v_timestamp = 50, v_is_own = False\<rparr>]
   \<and> fst (app1_get_messages sort_key (example_db\<lparr>conversations := []\<rparr>) (Some p1) ''c3'') =
       Inr [\<lparr>v_id = ''m3'', v_sender = ''Doctor'', v_message = JStr ''Results are in'',
             v_timestamp = 50, v_is_own = False\<rparr>]"
  using C2_get_messages_any_viewer
          [OF sort_contract_sort_key, of example_db p1 "''c3''" "[]" example_ObjectId]
        example_app1_messages_c3 sort_contract_sort_key
  by simp

theorem C2_counterexample:
  "conv_id (conversations example_db ! 2) = ''c3''
   \<and> p1 \<notin> set (participants (conversations example_db ! 2))
   \<and> fst (app1_get_messages sort_key example_db (Some p1) ''c3'') =
       Inr [\<lparr>v_id = ''m3'', v_sender = ''Doctor'', v_message = JStr ''Results are in'',
             v_timestamp = 50, v_is_own = False\<rparr>]
   \<and> fst (app_get_messages example_ObjectId sort_key example_db (Some p1) ''c3'') =
       Inr [\<lparr>v_id = ''m3'', v_sender = ''Unknown'', v_message = JStr ''Results are in'',
             v_timestamp = 50, v_is_own = False\<rparr>]"
  using example_app1_messages_c3 example_app_messages_c3
  by (simp add: example_db_def)







end
